theory Spec2Isabelle
  imports Complex_Main
begin

section \<open>Obstacles (src/Entities/Obstacles/Obstacle.ts)\<close>

subsection \<open>Data\<close>

text \<open>
  JavaScript numbers that hold coordinates, weights and random draws are modelled as
  \<^typ>\<open>real\<close>; every double is a real number. The product
  \<open>Math.random() * totalWeight\<close> is rounded in binary64, so it is not computed here:
  its result, the draw \<open>randomNum\<close> with which the loop starts, is the argument of
  \<open>getRandomObstacleType\<close>. The comparisons of the loop are exact, and so is every
  subtraction of it on a draw below \<open>2\<^sup>5\<^sup>3\<close> (an integer weight taken from a larger
  double); a draw beyond that stays above every weight, rounded or not. So the
  real-valued loop takes the branches of the floating-point one.

  \<open>IMAGE_NAMES\<close> is an enum of \<open>Constants\<close>; the obstacle catalog names five of its
  members, the others (skier and rhino images) are kept apart as \<open>OTHER_IMAGE\<close>.
  The fields \<open>x\<close> and \<open>y\<close> of a \<open>Position\<close> are written \<open>px\<close> and \<open>py\<close>.
\<close>

datatype IMAGE_NAMES = TREE | TREE_CLUSTER | ROCK1 | ROCK2 | JUMP_RAMP | OTHER_IMAGE string

record Position =
  px :: real
  py :: real

record iObstacleType =
  imageName :: IMAGE_NAMES
  weight :: real

definition OBSTACLE_TYPES :: "iObstacleType list" where
  "OBSTACLE_TYPES =
     [\<lparr>imageName = TREE, weight = 30\<rparr>,
      \<lparr>imageName = TREE_CLUSTER, weight = 30\<rparr>,
      \<lparr>imageName = ROCK1, weight = 20\<rparr>,
      \<lparr>imageName = ROCK2, weight = 10\<rparr>,
      \<lparr>imageName = JUMP_RAMP, weight = 10\<rparr>]"

text \<open>The weights array and the total that the \<open>map\<close> callback accumulates.\<close>

definition weights :: "real list" where
  "weights = map weight OBSTACLE_TYPES"

definition totalWeight :: real where
  "totalWeight = foldl (+) 0 weights"

text \<open>
  The \<open>for\<close> loop of \<open>getRandomObstacleType\<close>, started at index \<open>i\<close> on the weights
  from \<open>i\<close> on: \<open>Some i\<close> is \<open>return i\<close> from inside the loop, \<open>None\<close> is the loop
  running to its end without a match.
\<close>

fun pickLoop :: "real list \<Rightarrow> nat \<Rightarrow> real \<Rightarrow> nat option" where
  "pickLoop [] i randomNum = None"
| "pickLoop (w # ws) i randomNum =
     (if randomNum < w then Some i else pickLoop ws (Suc i) (randomNum - w))"

text \<open>
  \<open>randomNum\<close> is the double that \<open>Math.random() * totalWeight\<close> evaluated to, the
  value of the variable when the loop is entered.
\<close>

definition getRandomObstacleType :: "real \<Rightarrow> nat" where
  "getRandomObstacleType randomNum =
     (case pickLoop weights 0 randomNum of
        Some i \<Rightarrow> i
      | None \<Rightarrow> length OBSTACLE_TYPES - 1)"

text \<open>
  \<open>Entity\<close> is the base class of every placed object; of its fields the position is
  state, the image manager and the canvas are shared collaborators. An obstacle
  extends it with its own two fields.
\<close>

record Entity =
  position :: Position

record Obstacle = Entity +
  imageName :: IMAGE_NAMES
  weight :: real

datatype error = TypeError

text \<open>
  The constructor, with the draw that its call of \<open>getRandomObstacleType\<close> makes.
  \<open>OBSTACLE_TYPES[typeIdx]\<close> is \<open>undefined\<close> out of range, and reading \<open>.imageName\<close>
  of it throws a \<open>TypeError\<close>.
\<close>

definition new_Obstacle :: "real \<Rightarrow> real \<Rightarrow> real \<Rightarrow> error + Obstacle" where
  "new_Obstacle x y randomNum =
     (let typeIdx = getRandomObstacleType randomNum
      in if typeIdx < length OBSTACLE_TYPES
         then Inr \<lparr>position = \<lparr>px = x, py = y\<rparr>,
                   imageName = iObstacleType.imageName (OBSTACLE_TYPES ! typeIdx),
                   weight = 0\<rparr>
         else Inl TypeError)"

text \<open>\<open>die() {}\<close>: the body is empty.\<close>

definition die :: "Obstacle \<Rightarrow> Obstacle" where
  "die ob = ob"

subsection \<open>The selection rule in the specification's words\<close>

text \<open>
  The weight accumulated before entry \<open>i\<close>, and the band
  \<open>[accumulated, accumulated + weight\<^sub>i)\<close> of entry \<open>i\<close>.
\<close>

definition accumulated :: "nat \<Rightarrow> real" where
  "accumulated i = sum_list (take i (map iObstacleType.weight OBSTACLE_TYPES))"

definition in_band :: "real \<Rightarrow> nat \<Rightarrow> bool" where
  "in_band r i \<longleftrightarrow>
     accumulated i \<le> r \<and> r < accumulated i + iObstacleType.weight (OBSTACLE_TYPES ! i)"

section \<open>The game (Core/Game.ts)\<close>

subsection \<open>Data of the collaborators\<close>

text \<open>
  \<open>Utils\<close>, \<open>Skier\<close>, \<open>Rhino\<close>, \<open>ObstacleManager\<close>, \<open>Canvas\<close> and \<open>Constants\<close> are
  imported by the game and are not among the sources. Their data is declared as the
  game uses it and as the specification's data model describes it. The four fields
  of a \<open>Rect\<close> carry the suffix \<open>_edge\<close>, since \<open>top\<close> is a constant of HOL.
\<close>

record Rect =
  left_edge :: real
  top_edge :: real
  right_edge :: real
  bottom_edge :: real

datatype STATES =
  STATE_SKIING | STATE_JUMPING | STATE_CRASHED | STATE_DEAD | STATE_FLIPPING

datatype DIRECTION = LEFT | LEFT_DOWN | DOWN | RIGHT_DOWN | RIGHT

record Skier = Entity +
  state :: STATES
  direction :: DIRECTION
  jumpFrame :: nat

datatype RHINO_STATES = RUNNING | EATING | CELEBRATING

record Rhino = Entity +
  rhinoState :: RHINO_STATES
  rhinoFrame :: nat

record Canvas =
  width :: real
  height :: real

record KeyboardEvent =
  key :: string
  defaultPrevented :: bool

text \<open>
  What the game calls and cannot see into. \<open>now\<close> is what \<open>Date.now()\<close> returns.
  The skier is built with a reference to the obstacle manager, which its methods
  query, so they take the obstacles as an argument; the rhino's \<open>update\<close> is handed the
  skier and may change it. None of them holds a reference to the game, whose fields
  are private.
\<close>

record World =
  GAME_WIDTH :: real
  GAME_HEIGHT :: real
  KEYS_P :: string
  KEYS_ESC :: string
  now :: int
  newCanvas :: "real \<Rightarrow> real \<Rightarrow> Canvas"
  newSkier :: "real \<Rightarrow> real \<Rightarrow> Skier"
  newRhino :: "real \<Rightarrow> real \<Rightarrow> Rhino"
  placeInitialObstacles :: "Obstacle list \<Rightarrow> Obstacle list"
  placeNewObstacle :: "Rect \<Rightarrow> Rect \<Rightarrow> Obstacle list \<Rightarrow> Obstacle list"
  skierUpdate :: "int \<Rightarrow> Obstacle list \<Rightarrow> Skier \<Rightarrow> Skier"
  skierHandleInput :: "string \<Rightarrow> Obstacle list \<Rightarrow> Skier \<Rightarrow> bool \<times> Skier"
  rhinoUpdate :: "int \<Rightarrow> Skier \<Rightarrow> Rhino \<Rightarrow> Rhino \<times> Skier"

subsection \<open>State of the game\<close>

text \<open>
  The score and the game time hold integers only (\<open>0\<close>, \<open>+= 1\<close>, \<open>+= 10\<close>, \<open>+= 100\<close>,
  \<open>Date.now()\<close>) and are modelled as \<^typ>\<open>int\<close>; a double adds these exactly up to
  \<open>2\<^sup>5\<^sup>3\<close>.
\<close>

record Game =
  canvas :: Canvas
  gameWindow :: Rect
  gameTime :: int
  obstacleManager :: "Obstacle list"
  paused :: bool
  score :: int
  skier :: Skier
  rhino :: Rhino

subsection \<open>Calls on the drawing surface\<close>

datatype FillStyle = Rgba real real real real | Colour string

datatype CanvasCall =
    ClearCanvas
  | SetDrawOffset real real
  | SkierDraw Skier
  | RhinoDraw Rhino
  | DrawObstacles "Obstacle list"
  | SetFillStyle FillStyle
  | FillRect real real real real
  | SetFont string
  | SetTextAlign string
  | FillText string real real

text \<open>
  A template literal writes an integer in decimal digits (below \<open>10\<^sup>2\<^sup>1\<close> in
  magnitude, far beyond any score).
\<close>

fun digits :: "nat \<Rightarrow> string" where
  "digits n =
     (if n < 10 then [''0123456789'' ! n]
      else digits (n div 10) @ [''0123456789'' ! (n mod 10)])"

declare digits.simps [simp del]

definition numberToString :: "int \<Rightarrow> string" where
  "numberToString i = (if i < 0 then ''-'' @ digits (nat (- i)) else digits (nat i))"

subsection \<open>Methods\<close>

definition calculateGameWindow :: "World \<Rightarrow> Game \<Rightarrow> Game" where
  "calculateGameWindow w g =
     (let skierPosition = position (skier g);
          left = px skierPosition - GAME_WIDTH w / 2;
          top = py skierPosition - GAME_HEIGHT w / 2
      in g\<lparr>gameWindow :=
            \<lparr>left_edge = left, top_edge = top,
             right_edge = left + GAME_WIDTH w, bottom_edge = top + GAME_HEIGHT w\<rparr>\<rparr>)"

text \<open>
  \<open>init\<close> assigns every field but \<open>paused\<close>, \<open>score\<close> and \<open>gameTime\<close>; the obstacle
  manager starts without obstacles.
\<close>

definition init :: "World \<Rightarrow> Game \<Rightarrow> Game" where
  "init w g =
     (let g1 = g\<lparr>canvas := newCanvas w (GAME_WIDTH w) (GAME_HEIGHT w)\<rparr>;
          g2 = g1\<lparr>obstacleManager := []\<rparr>;
          g3 = g2\<lparr>skier := newSkier w 0 0\<rparr>;
          g4 = g3\<lparr>rhino := newRhino w (- 500) (- 2000)\<rparr>;
          g5 = calculateGameWindow w g4
      in g5\<lparr>obstacleManager := placeInitialObstacles w (obstacleManager g5)\<rparr>)"

text \<open>
  The constructor: the field initialiser \<open>gameTime = Date.now()\<close> runs first, then the
  body. \<open>g0\<close> stands for the fields not yet assigned; \<open>init\<close> and the two assignments
  overwrite all of them.
\<close>

definition new_Game :: "World \<Rightarrow> Game \<Rightarrow> Game" where
  "new_Game w g0 =
     (let g1 = g0\<lparr>gameTime := now w\<rparr>;
          g2 = init w g1;
          g3 = g2\<lparr>paused := False\<rparr>
      in g3\<lparr>score := 0\<rparr>)"

definition updateGameScore :: "Game \<Rightarrow> Game" where
  "updateGameScore g =
     (case state (skier g) of
        STATE_SKIING \<Rightarrow> g\<lparr>score := score g + 1\<rparr>
      | STATE_JUMPING \<Rightarrow> g\<lparr>score := score g + 10\<rparr>
      | STATE_FLIPPING \<Rightarrow> g\<lparr>score := score g + 100\<rparr>
      | _ \<Rightarrow> g)"

definition updateGameWindow :: "World \<Rightarrow> Game \<Rightarrow> Game" where
  "updateGameWindow w g =
     (if paused g then g
      else
        let g1 = g\<lparr>gameTime := now w\<rparr>;
            g2 = updateGameScore g1;
            previousGameWindow = gameWindow g2;
            g3 = calculateGameWindow w g2;
            g4 = g3\<lparr>obstacleManager :=
                     placeNewObstacle w (gameWindow g3) previousGameWindow (obstacleManager g3)\<rparr>;
            g5 = g4\<lparr>skier := skierUpdate w (gameTime g4) (obstacleManager g4) (skier g4)\<rparr>;
            (rh, sk) = rhinoUpdate w (gameTime g5) (skier g5) (rhino g5)
        in g5\<lparr>rhino := rh, skier := sk\<rparr>)"

definition pause :: "Game \<Rightarrow> Game" where
  "pause g = (if state (skier g) = STATE_SKIING then g\<lparr>paused := True\<rparr> else g)"

definition resume :: "Game \<Rightarrow> Game" where
  "resume g = g\<lparr>paused := False\<rparr>"

text \<open>
  The \<open>switch\<close> of \<open>handleKeyDown\<close>, on the game and the local \<open>handled\<close>. The two
  \<open>case\<close> labels share one body, which has no \<open>break\<close>, so control falls through into
  \<open>default\<close>; every other key enters at \<open>default\<close>.
\<close>

definition keySwitch :: "World \<Rightarrow> string \<Rightarrow> Game \<times> bool \<Rightarrow> Game \<times> bool" where
  "keySwitch w k gh =
     (let (g, handled) = gh;
          g1 = (if k = KEYS_P w \<or> k = KEYS_ESC w
                then (if paused g then resume g else pause g)
                else g)
      in (g1, False))"

definition handleKeyDown :: "World \<Rightarrow> Game \<Rightarrow> KeyboardEvent \<Rightarrow> Game \<times> KeyboardEvent" where
  "handleKeyDown w g event =
     (let (handled0, sk) = skierHandleInput w (key event) (obstacleManager g) (skier g);
          (g1, handled) = keySwitch w (key event) (g\<lparr>skier := sk\<rparr>, handled0)
      in (g1, if handled then event\<lparr>defaultPrevented := True\<rparr> else event))"

definition drawMenuMessage :: "Game \<Rightarrow> string \<Rightarrow> real \<Rightarrow> CanvasCall list" where
  "drawMenuMessage g message menuOpacity =
     [SetFillStyle (Rgba 0 0 0 menuOpacity),
      FillRect 0 0 (width (canvas g)) (height (canvas g)),
      SetFont ''30px Arial'',
      SetFillStyle (Colour ''white''),
      SetTextAlign ''center'',
      FillText message (width (canvas g) / 2) (height (canvas g) / 2)]"

definition drawScore :: "Game \<Rightarrow> CanvasCall list" where
  "drawScore g =
     [SetFont ''20px Arial'',
      SetFillStyle (Colour ''black''),
      SetTextAlign ''left'',
      FillText (''Score: '' @ numberToString (score g)) 10 30]"

definition pausedMessage :: "Game \<Rightarrow> string" where
  "pausedMessage g = ''Game paused! Your score is '' @ numberToString (score g) @ ''!''"

definition drawMenuMessages :: "Game \<Rightarrow> CanvasCall list" where
  "drawMenuMessages g =
     (if paused g then drawMenuMessage g (pausedMessage g) 0.5 else [])
     @ (if state (skier g) = STATE_CRASHED
        then drawMenuMessage g
               ''You crashed! You can keep moving. Be aware of the obstacles!'' 0.2
        else [])
     @ (if state (skier g) = STATE_DEAD
        then drawMenuMessage g
               (''Game over! Your score was '' @ numberToString (score g) @ ''!'') 0.5
        else [])"

definition drawGameWindow :: "Game \<Rightarrow> CanvasCall list" where
  "drawGameWindow g =
     [SetDrawOffset (left_edge (gameWindow g)) (top_edge (gameWindow g)),
      SkierDraw (skier g),
      RhinoDraw (rhino g),
      DrawObstacles (obstacleManager g)]
     @ drawScore g
     @ drawMenuMessages g"

text \<open>
  One frame: the new state and the calls issued. \<open>requestAnimationFrame\<close> then
  schedules the next frame, which the host runs as another \<open>run\<close>.
\<close>

definition run :: "World \<Rightarrow> Game \<Rightarrow> Game \<times> CanvasCall list" where
  "run w g =
     (let g1 = updateGameWindow w g
      in (g1, ClearCanvas # drawGameWindow g1))"

subsection \<open>The operations on a game\<close>

text \<open>
  The fields of a game are private, so its state changes through its methods only.
  \<open>load\<close> awaits the image manager and assigns nothing; the draw methods write to the
  canvas and assign nothing.
\<close>

datatype GameOp =
    Init World
  | Run World
  | UpdateGameWindow World
  | DrawGameWindow
  | CalculateGameWindow World
  | HandleKeyDown World KeyboardEvent
  | Pause
  | Resume
  | DrawMenuMessages
  | DrawScore
  | UpdateGameScore
  | Load

fun exec :: "GameOp \<Rightarrow> Game \<Rightarrow> Game" where
  "exec (Init w) g = init w g"
| "exec (Run w) g = fst (run w g)"
| "exec (UpdateGameWindow w) g = updateGameWindow w g"
| "exec DrawGameWindow g = g"
| "exec (CalculateGameWindow w) g = calculateGameWindow w g"
| "exec (HandleKeyDown w event) g = fst (handleKeyDown w g event)"
| "exec Pause g = pause g"
| "exec Resume g = resume g"
| "exec DrawMenuMessages g = g"
| "exec DrawScore g = g"
| "exec UpdateGameScore g = updateGameScore g"
| "exec Load g = g"

fun play :: "GameOp list \<Rightarrow> Game \<Rightarrow> Game" where
  "play [] g = g"
| "play (op # ops) g = play ops (exec op g)"

text \<open>Whether an operation, started in \<open>g\<close>, gets to call \<open>updateGameScore\<close>.\<close>

fun reachesUpdateGameScore :: "GameOp \<Rightarrow> Game \<Rightarrow> bool" where
  "reachesUpdateGameScore UpdateGameScore g = True"
| "reachesUpdateGameScore (UpdateGameWindow w) g = (\<not> paused g)"
| "reachesUpdateGameScore (Run w) g = (\<not> paused g)"
| "reachesUpdateGameScore _ g = False"

text \<open>The points per tick, in the specification's words.\<close>

fun scoreGain :: "STATES \<Rightarrow> int" where
  "scoreGain STATE_SKIING = 1"
| "scoreGain STATE_JUMPING = 10"
| "scoreGain STATE_FLIPPING = 100"
| "scoreGain STATE_CRASHED = 0"
| "scoreGain STATE_DEAD = 0"

text \<open>
  The layers of a frame: the canvas calls of \<open>drawScore\<close> and \<open>drawMenuMessage\<close> are
  the overlays.
\<close>

fun isOverlay :: "CanvasCall \<Rightarrow> bool" where
  "isOverlay (SetFillStyle s) = True"
| "isOverlay (FillRect a b c d) = True"
| "isOverlay (SetFont f) = True"
| "isOverlay (SetTextAlign a) = True"
| "isOverlay (FillText t a b) = True"
| "isOverlay _ = False"

fun isEntityDraw :: "CanvasCall \<Rightarrow> bool" where
  "isEntityDraw (SkierDraw s) = True"
| "isEntityDraw (RhinoDraw r) = True"
| "isEntityDraw (DrawObstacles obs) = True"
| "isEntityDraw _ = False"

section \<open>The skier and the rhino, from the specification\<close>

text \<open>
  What the specification leaves open: the velocity of each direction, the bounding
  boxes (they come from the image sizes), which obstacle types crash the skier, the
  lengths of the animations and the rhino's speed.
\<close>

record Tuning =
  velocity :: "DIRECTION \<Rightarrow> Position"
  skierBounds :: "Skier \<Rightarrow> Rect"
  obstacleBounds :: "Obstacle \<Rightarrow> Rect"
  rhinoBounds :: "Rhino \<Rightarrow> Rect"
  crashable :: "IMAGE_NAMES \<Rightarrow> bool"
  finalJumpFrame :: nat
  finalEatingFrame :: nat
  pursuitSpeed :: real

text \<open>
  Modelled from the spec: \<open>Rect.intersects\<close> of \<open>Utils\<close>, which is not among the
  sources; strict overlap on both axes.
\<close>

definition intersects :: "Rect \<Rightarrow> Rect \<Rightarrow> bool" where
  "intersects a b \<longleftrightarrow>
     right_edge a > left_edge b \<and> left_edge a < right_edge b
     \<and> bottom_edge a > top_edge b \<and> top_edge a < bottom_edge b"

text \<open>
  Modelled from the spec: translating a \<open>Position\<close> (of \<open>Utils\<close>, not among the
  sources) by a velocity.
\<close>

definition translate :: "Position \<Rightarrow> Position \<Rightarrow> Position" where
  "translate p v = \<lparr>px = px p + px v, py = py p + py v\<rparr>"

text \<open>
  Modelled from the spec: the \<open>Skier\<close> constructor, which is not among the sources;
  the skier starts in state \<open>SKIING\<close>, direction \<open>DOWN\<close>.
\<close>

definition spec_new_Skier :: "real \<Rightarrow> real \<Rightarrow> Skier" where
  "spec_new_Skier x y =
     \<lparr>position = \<lparr>px = x, py = y\<rparr>, state = STATE_SKIING, direction = DOWN, jumpFrame = 0\<rparr>"

text \<open>
  Modelled from the spec: the movement step of \<open>Skier.update\<close>, which is not among the
  sources; \<open>position += velocity\<close> once per tick in the states \<open>SKIING\<close>, \<open>JUMPING\<close>
  and \<open>FLIPPING\<close>, no movement in \<open>CRASHED\<close> and \<open>DEAD\<close>.
\<close>

definition spec_Skier_move :: "Tuning \<Rightarrow> Skier \<Rightarrow> Skier" where
  "spec_Skier_move t sk =
     (if state sk = STATE_SKIING \<or> state sk = STATE_JUMPING \<or> state sk = STATE_FLIPPING
      then sk\<lparr>position := translate (position sk) (velocity t (direction sk))\<rparr>
      else sk)"

text \<open>
  Modelled from the spec: the jump sequence of \<open>Skier.update\<close>, which is not among
  the sources; a jump ends in \<open>SKIING\<close> when its frame reaches the final index. The
  frame budget of a flip is not given and is left out.
\<close>

definition spec_Skier_jump :: "Tuning \<Rightarrow> Skier \<Rightarrow> Skier" where
  "spec_Skier_jump t sk =
     (if state sk = STATE_JUMPING
      then (if finalJumpFrame t \<le> Suc (jumpFrame sk)
            then sk\<lparr>state := STATE_SKIING, jumpFrame := 0\<rparr>
            else sk\<lparr>jumpFrame := Suc (jumpFrame sk)\<rparr>)
      else sk)"

text \<open>
  Modelled from the spec: the collision query of \<open>Skier.update\<close>, which is not among
  the sources; after moving, a skier in \<open>SKIING\<close> whose bounds intersect those of an
  obstacle of a crashing type becomes \<open>CRASHED\<close>; airborne, crashed and dead skiers
  are left as they are.
\<close>

definition spec_Skier_collide :: "Tuning \<Rightarrow> Obstacle list \<Rightarrow> Skier \<Rightarrow> Skier" where
  "spec_Skier_collide t obstacles sk =
     (if state sk = STATE_SKIING
         \<and> list_ex (\<lambda>ob. crashable t (imageName ob)
                         \<and> intersects (skierBounds t sk) (obstacleBounds t ob)) obstacles
      then sk\<lparr>state := STATE_CRASHED\<rparr>
      else sk)"

text \<open>
  Modelled from the spec: \<open>Skier.update\<close>, which is not among the sources; move,
  advance the jump, then query the collisions.
\<close>

definition spec_Skier_update :: "Tuning \<Rightarrow> int \<Rightarrow> Obstacle list \<Rightarrow> Skier \<Rightarrow> Skier" where
  "spec_Skier_update t currentTime obstacles sk =
     spec_Skier_collide t obstacles (spec_Skier_jump t (spec_Skier_move t sk))"

text \<open>
  Modelled from the spec: the pursuit step of \<open>Rhino.update\<close>, which is not among the
  sources; the vector toward the skier, normalised and scaled by the pursuit speed.
\<close>

definition spec_Rhino_chase :: "Tuning \<Rightarrow> Skier \<Rightarrow> Rhino \<Rightarrow> Rhino" where
  "spec_Rhino_chase t sk rh =
     (let dx = px (position sk) - px (position rh);
          dy = py (position sk) - py (position rh);
          len = sqrt (dx * dx + dy * dy)
      in if len = 0 then rh
         else rh\<lparr>position :=
                  translate (position rh)
                    \<lparr>px = dx / len * pursuitSpeed t, py = dy / len * pursuitSpeed t\<rparr>\<rparr>)"

text \<open>
  Modelled from the spec: \<open>Rhino.update\<close>, which is not among the sources. The rhino
  celebrates once the skier is dead; running, it chases and starts eating when its
  bounds intersect the skier's; eating, it stays in place until the animation ends.
  Of the skier it changes the state only: a crashed skier whose bounds intersect the
  rhino's becomes \<open>DEAD\<close>.
\<close>

definition spec_Rhino_update :: "Tuning \<Rightarrow> int \<Rightarrow> Skier \<Rightarrow> Rhino \<Rightarrow> Rhino \<times> Skier" where
  "spec_Rhino_update t currentTime sk rh =
     (let rh1 =
        (if state sk = STATE_DEAD then rh\<lparr>rhinoState := CELEBRATING\<rparr>
         else case rhinoState rh of
             RUNNING \<Rightarrow>
               (let moved = spec_Rhino_chase t sk rh
                in if intersects (rhinoBounds t moved) (skierBounds t sk)
                   then moved\<lparr>rhinoState := EATING, rhinoFrame := 0\<rparr>
                   else moved)
           | EATING \<Rightarrow>
               (if finalEatingFrame t \<le> Suc (rhinoFrame rh)
                then rh\<lparr>rhinoState := RUNNING, rhinoFrame := 0\<rparr>
                else rh\<lparr>rhinoFrame := Suc (rhinoFrame rh)\<rparr>)
           | CELEBRATING \<Rightarrow> rh);
          sk1 =
        (if state sk = STATE_CRASHED \<and> intersects (skierBounds t sk) (rhinoBounds t rh1)
         then sk\<lparr>state := STATE_DEAD\<rparr>
         else sk)
      in (rh1, sk1))"

section \<open>A concrete game\<close>

text \<open>
  One setting of everything the sources leave open, on which the theorems below are
  evaluated: an 800 by 600 window, 20 by 20 boxes centred on the positions, a skier
  that consumes the left arrow key, and no obstacles placed.
\<close>

definition box :: "Position \<Rightarrow> Rect" where
  "box p = \<lparr>left_edge = px p - 10, top_edge = py p - 10,
            right_edge = px p + 10, bottom_edge = py p + 10\<rparr>"

definition exampleTuning :: Tuning where
  "exampleTuning =
     \<lparr>velocity = (\<lambda>d. case d of
          LEFT \<Rightarrow> \<lparr>px = 0, py = 0\<rparr>
        | LEFT_DOWN \<Rightarrow> \<lparr>px = - 7, py = 7\<rparr>
        | DOWN \<Rightarrow> \<lparr>px = 0, py = 10\<rparr>
        | RIGHT_DOWN \<Rightarrow> \<lparr>px = 7, py = 7\<rparr>
        | RIGHT \<Rightarrow> \<lparr>px = 0, py = 0\<rparr>),
      skierBounds = (\<lambda>sk. box (position sk)),
      obstacleBounds = (\<lambda>ob. box (position ob)),
      rhinoBounds = (\<lambda>rh. box (position rh)),
      crashable = (\<lambda>n. n \<noteq> JUMP_RAMP),
      finalJumpFrame = 5,
      finalEatingFrame = 5,
      pursuitSpeed = 11\<rparr>"

definition exampleWorld :: World where
  "exampleWorld =
     \<lparr>GAME_WIDTH = 800, GAME_HEIGHT = 600,
      KEYS_P = ''p'', KEYS_ESC = ''Escape'',
      now = 1000,
      newCanvas = (\<lambda>w h. \<lparr>width = w, height = h\<rparr>),
      newSkier = spec_new_Skier,
      newRhino = (\<lambda>x y. \<lparr>position = \<lparr>px = x, py = y\<rparr>, rhinoState = RUNNING, rhinoFrame = 0\<rparr>),
      placeInitialObstacles = (\<lambda>obs. obs),
      placeNewObstacle = (\<lambda>newWindow previousWindow obs. obs),
      skierUpdate = spec_Skier_update exampleTuning,
      skierHandleInput = (\<lambda>k obs sk. (k = ''ArrowLeft'', sk)),
      rhinoUpdate = spec_Rhino_update exampleTuning\<rparr>"

definition exampleGame :: Game where
  "exampleGame =
     \<lparr>canvas = \<lparr>width = 800, height = 600\<rparr>,
      gameWindow = \<lparr>left_edge = - 400, top_edge = - 300, right_edge = 400, bottom_edge = 300\<rparr>,
      gameTime = 1000,
      obstacleManager = [],
      paused = False,
      score = 0,
      skier = spec_new_Skier 0 0,
      rhino = \<lparr>position = \<lparr>px = - 500, py = - 2000\<rparr>, rhinoState = RUNNING, rhinoFrame = 0\<rparr>\<rparr>"

section \<open>Properties of the obstacles\<close>

subsection \<open>The catalog, evaluated\<close>

lemma weights_eq: "weights = [30, 30, 20, 10, 10]"
  by (simp add: weights_def OBSTACLE_TYPES_def)

lemma totalWeight_eq: "totalWeight = 100"
  by (simp add: totalWeight_def weights_eq)

lemma length_OBSTACLE_TYPES: "length OBSTACLE_TYPES = 5"
  by (simp add: OBSTACLE_TYPES_def)

lemma pickLoop_catalog:
  "pickLoop weights 0 r =
     (if r < 30 then Some 0 else if r < 60 then Some 1 else if r < 80 then Some 2
      else if r < 90 then Some 3 else if r < 100 then Some 4 else None)"
  by (simp add: weights_eq)

lemma getRandomObstacleType_catalog:
  "getRandomObstacleType r =
     (if r < 30 then 0 else if r < 60 then 1 else if r < 80 then 2
      else if r < 90 then 3 else 4)"
  by (simp add: getRandomObstacleType_def pickLoop_catalog length_OBSTACLE_TYPES)

lemma in_band_catalog:
  "in_band r 0 \<longleftrightarrow> 0 \<le> r \<and> r < 30"
  "in_band r (Suc 0) \<longleftrightarrow> 30 \<le> r \<and> r < 60"
  "in_band r 2 \<longleftrightarrow> 60 \<le> r \<and> r < 80"
  "in_band r 3 \<longleftrightarrow> 80 \<le> r \<and> r < 90"
  "in_band r 4 \<longleftrightarrow> 90 \<le> r \<and> r < 100"
  by (simp_all add: in_band_def accumulated_def OBSTACLE_TYPES_def)

lemma less_4_cases: "(j::nat) < 4 \<Longrightarrow> j = 0 \<or> j = Suc 0 \<or> j = 2 \<or> j = 3"
  by arith

subsection \<open>Weighted selection\<close>

text \<open>
  C2. Let \<open>r\<close> be the draw, the value of \<open>Math.random() * totalWeight\<close>, where the
  total weight is \<open>30 + 30 + 20 + 10 + 10\<close>. For \<open>0 \<le> r < totalWeight\<close>,
  \<open>getRandomObstacleType\<close> returns a catalog index whose band
  \<open>[accumulated, accumulated + weight)\<close> holds \<open>r\<close>, and no earlier entry's band holds
  \<open>r\<close>. Whenever the loop ends without a match, the result is the last catalog index.
\<close>

theorem getRandomObstacleType_first_band:
  "(0 \<le> r \<and> r < totalWeight \<longrightarrow>
      getRandomObstacleType r < length OBSTACLE_TYPES
      \<and> in_band r (getRandomObstacleType r)
      \<and> (\<forall>j < getRandomObstacleType r. \<not> in_band r j))
   \<and> (pickLoop weights 0 r = None \<longrightarrow>
        getRandomObstacleType r = length OBSTACLE_TYPES - 1)
   \<and> totalWeight = 30 + 30 + 20 + 10 + 10"
proof (intro conjI impI allI)
  show "totalWeight = 30 + 30 + 20 + 10 + 10"
    by (simp add: totalWeight_eq)
next
  assume "pickLoop weights 0 r = None"
  then show "getRandomObstacleType r = length OBSTACLE_TYPES - 1"
    by (simp add: getRandomObstacleType_def)
next
  assume range: "0 \<le> r \<and> r < totalWeight"
  show "getRandomObstacleType r < length OBSTACLE_TYPES"
    by (simp add: getRandomObstacleType_catalog length_OBSTACLE_TYPES)
  show "in_band r (getRandomObstacleType r)"
    using range
    by (simp add: getRandomObstacleType_catalog in_band_catalog totalWeight_eq)
  fix j
  assume "j < getRandomObstacleType r"
  then have j: "j < (if r < 30 then 0 else if r < 60 then 1 else if r < 80 then 2
      else if r < 90 then 3 else 4)"
    by (simp only: getRandomObstacleType_catalog)
  then have "j < 4" by (simp split: if_splits)
  then have "j = 0 \<or> j = Suc 0 \<or> j = 2 \<or> j = 3" by (rule less_4_cases)
  then show "\<not> in_band r j"
    using j by (auto simp: in_band_catalog split: if_splits)
qed

text \<open>
  The draw \<open>45\<close> lies in the band of entry 1 and not in that of entry 0. The draw
  \<open>60\<close>, which is what the product evaluates to when \<open>Math.random()\<close> returns the
  double nearest to \<open>0.6\<close>, lies in the band of entry 2 and in no earlier one. The draw
  \<open>100\<close> finds no match and gives the last index.
\<close>

theorem getRandomObstacleType_first_band_witness:
  "(0::real) \<le> 45 \<and> 45 < totalWeight
   \<and> getRandomObstacleType 45 = 1 \<and> in_band 45 1 \<and> \<not> in_band 45 0
   \<and> (0::real) \<le> 60 \<and> 60 < totalWeight
   \<and> getRandomObstacleType 60 = 2 \<and> in_band 60 2 \<and> \<not> in_band 60 1 \<and> \<not> in_band 60 0
   \<and> pickLoop weights 0 100 = None \<and> getRandomObstacleType 100 = 4"
proof -
  have h: "(0::real) \<le> 45 \<and> 45 < totalWeight" by (simp add: totalWeight_eq)
  have h': "(0::real) \<le> 60 \<and> 60 < totalWeight" by (simp add: totalWeight_eq)
  have n: "pickLoop weights 0 100 = None" by (simp add: weights_eq)
  have i: "getRandomObstacleType 45 = 1"
    by (simp add: getRandomObstacleType_catalog)
  have i': "getRandomObstacleType 60 = 2"
    by (simp add: getRandomObstacleType_catalog)
  from getRandomObstacleType_first_band [of 45] h
  have "in_band 45 (getRandomObstacleType 45)
        \<and> (\<forall>j < getRandomObstacleType 45. \<not> in_band 45 j)"
    by blast
  then have a: "in_band 45 1 \<and> \<not> in_band 45 0" unfolding i by simp
  from getRandomObstacleType_first_band [of 60] h'
  have "in_band 60 (getRandomObstacleType 60)
        \<and> (\<forall>j < getRandomObstacleType 60. \<not> in_band 60 j)"
    by blast
  then have "in_band 60 2 \<and> (\<forall>j < 2. \<not> in_band 60 j)" unfolding i' .
  then have b: "in_band 60 2 \<and> \<not> in_band 60 1 \<and> \<not> in_band 60 0" by simp
  from getRandomObstacleType_first_band [of 100] n
  have "getRandomObstacleType 100 = length OBSTACLE_TYPES - 1" by blast
  then have c: "getRandomObstacleType 100 = 4" by (simp add: length_OBSTACLE_TYPES)
  from a b c h h' n i i' show ?thesis by blast
qed

subsection \<open>Obstacles are permanent\<close>

text \<open>
  C7. \<open>die\<close> on an obstacle is a no-op: the obstacle it returns is the one it was
  given, with the same position, image name and weight, and calling it on every
  obstacle of a collection leaves the collection as it was.
\<close>

theorem die_noop:
  "die ob = ob
   \<and> position (die ob) = position ob
   \<and> imageName (die ob) = imageName ob
   \<and> weight (die ob) = weight ob
   \<and> map die obstacles = obstacles"
  by (simp add: die_def map_idI)

subsection \<open>The constructor indexes the catalog in bounds\<close>

text \<open>
  C8. For every draw \<open>r\<close> with \<open>0 \<le> r < totalWeight\<close>, the index returned by
  \<open>getRandomObstacleType\<close> is at most \<open>OBSTACLE_TYPES.length - 1\<close>, so the constructor
  does not fail, and the image name of the obstacle it builds is one of \<open>TREE\<close>,
  \<open>TREE_CLUSTER\<close>, \<open>ROCK1\<close>, \<open>ROCK2\<close> and \<open>JUMP_RAMP\<close>.
\<close>

theorem new_Obstacle_in_catalog:
  assumes "0 \<le> r" and "r < totalWeight"
  shows "getRandomObstacleType r \<le> length OBSTACLE_TYPES - 1
         \<and> (\<exists>ob. new_Obstacle x y r = Inr ob
                \<and> imageName ob \<in> {TREE, TREE_CLUSTER, ROCK1, ROCK2, JUMP_RAMP}
                \<and> position ob = \<lparr>px = x, py = y\<rparr>)"
  by (simp add: new_Obstacle_def getRandomObstacleType_catalog length_OBSTACLE_TYPES
      OBSTACLE_TYPES_def)

text \<open>The draw \<open>85\<close> gives index 3 and an obstacle showing \<open>ROCK2\<close>.\<close>

theorem new_Obstacle_in_catalog_witness:
  "(0::real) \<le> 85 \<and> 85 < totalWeight
   \<and> getRandomObstacleType 85 = 3
   \<and> (\<exists>ob. new_Obstacle 7 9 85 = Inr ob \<and> imageName ob = ROCK2)"
proof -
  have h: "(0::real) \<le> 85" "(85::real) < totalWeight" by (simp_all add: totalWeight_eq)
  have i: "getRandomObstacleType 85 = 3"
    by (simp add: getRandomObstacleType_catalog)
  from new_Obstacle_in_catalog [OF h, of 7 9]
  obtain ob where "new_Obstacle 7 9 85 = Inr ob" by blast
  moreover from this have "imageName ob = ROCK2"
    unfolding new_Obstacle_def i by (auto simp: OBSTACLE_TYPES_def)
  ultimately show ?thesis using h i by blast
qed

section \<open>Properties of the game\<close>

subsection \<open>What each method does to the score\<close>

lemma score_updateGameScore:
  "score (updateGameScore g) = score g + scoreGain (state (skier g))"
  by (cases "state (skier g)") (simp_all add: updateGameScore_def)

lemma score_calculateGameWindow: "score (calculateGameWindow w g) = score g"
  by (simp add: calculateGameWindow_def Let_def)

lemma score_updateGameWindow:
  "score (updateGameWindow w g) = (if paused g then score g else score (updateGameScore g))"
  by (simp add: updateGameWindow_def Let_def split_beta score_calculateGameWindow
      score_updateGameScore)

lemma skier_updateGameScore: "skier (updateGameScore g) = skier g"
  by (cases "state (skier g)") (simp_all add: updateGameScore_def)

lemma obstacleManager_updateGameScore: "obstacleManager (updateGameScore g) = obstacleManager g"
  by (cases "state (skier g)") (simp_all add: updateGameScore_def)

lemma gameWindow_updateGameScore: "gameWindow (updateGameScore g) = gameWindow g"
  by (cases "state (skier g)") (simp_all add: updateGameScore_def)

lemma score_pause: "score (pause g) = score g"
  by (simp add: pause_def)

lemma score_resume: "score (resume g) = score g"
  by (simp add: resume_def)

lemma score_handleKeyDown: "score (fst (handleKeyDown w g event)) = score g"
  by (simp add: handleKeyDown_def keySwitch_def Let_def split_beta score_pause score_resume)

lemma score_init: "score (init w g) = score g"
  by (simp add: init_def Let_def score_calculateGameWindow)

lemma score_new_Game: "score (new_Game w g0) = 0"
  by (simp add: new_Game_def Let_def)

lemma score_exec:
  "score (exec op g) = (if reachesUpdateGameScore op g then score (updateGameScore g) else score g)"
  by (cases op)
    (simp_all add: run_def Let_def score_updateGameWindow score_init score_calculateGameWindow
      score_handleKeyDown score_pause score_resume)

lemma scoreGain_nonneg: "0 \<le> scoreGain s"
  by (cases s) simp_all

lemma score_exec_mono: "score g \<le> score (exec op g)"
  using scoreGain_nonneg [of "state (skier g)"]
  by (simp add: score_exec score_updateGameScore)

lemma score_play_mono: "score g \<le> score (play ops g)"
proof (induction ops arbitrary: g)
  case Nil
  show ?case by simp
next
  case (Cons op ops)
  have "score g \<le> score (exec op g)" by (rule score_exec_mono)
  also have "\<dots> \<le> score (play ops (exec op g))" by (rule Cons.IH)
  finally show ?case by simp
qed

text \<open>The concrete game is the one the constructor builds in the concrete world.\<close>

lemma new_Game_exampleWorld: "new_Game exampleWorld g0 = exampleGame"
  by (cases g0)
    (simp add: new_Game_def init_def calculateGameWindow_def Let_def exampleWorld_def
      exampleGame_def spec_new_Skier_def)

subsection \<open>Key events\<close>

text \<open>
  Every key reaches the \<open>default\<close> branch of the \<open>switch\<close>, which clears \<open>handled\<close>, so
  the event comes back as it went in, whatever the skier answered.
\<close>

lemma snd_handleKeyDown: "snd (handleKeyDown w g event) = event"
  by (simp add: handleKeyDown_def keySwitch_def Let_def split_beta)

text \<open>
  C1. The dispatcher is to call \<open>preventDefault\<close> exactly when the skier consumed the
  key. In the concrete world the skier consumes the left arrow key, and
  \<open>handleKeyDown\<close> leaves the event's default in place.
\<close>

theorem consumed_key_keeps_default:
  "fst (skierHandleInput exampleWorld ''ArrowLeft''
          (obstacleManager exampleGame) (skier exampleGame))
   \<and> \<not> defaultPrevented
         (snd (handleKeyDown exampleWorld exampleGame
                 \<lparr>key = ''ArrowLeft'', defaultPrevented = False\<rparr>))"
  by (simp add: handleKeyDown_def keySwitch_def Let_def split_beta exampleWorld_def)

text \<open>
  C9. On the pause key (\<open>P\<close> or \<open>Escape\<close>), the game is paused afterwards exactly when
  it was unpaused before and the skier's state is \<open>SKIING\<close>: unpaused, it pauses only
  for a skiing skier; paused, it always resumes. The state is the one \<open>pause\<close> reads,
  that of the skier after it was handed the key.
\<close>

theorem pause_key_toggles:
  assumes "key event = KEYS_P w \<or> key event = KEYS_ESC w"
    and "sk = snd (skierHandleInput w (key event) (obstacleManager g) (skier g))"
  shows "paused (fst (handleKeyDown w g event)) = (\<not> paused g \<and> state sk = STATE_SKIING)"
  using assms
  by (auto simp: handleKeyDown_def keySwitch_def Let_def split_beta pause_def resume_def)

text \<open>
  \<open>p\<close> pauses the running game with its skiing skier, \<open>Escape\<close> resumes the paused
  one, and \<open>p\<close> does not pause while the skier is crashed.
\<close>

theorem pause_key_toggles_witness:
  "paused (fst (handleKeyDown exampleWorld exampleGame
                  \<lparr>key = ''p'', defaultPrevented = False\<rparr>))
   \<and> \<not> paused (fst (handleKeyDown exampleWorld (exampleGame\<lparr>paused := True\<rparr>)
                  \<lparr>key = ''Escape'', defaultPrevented = False\<rparr>))
   \<and> \<not> paused (fst (handleKeyDown exampleWorld
                  (exampleGame\<lparr>skier := (skier exampleGame)\<lparr>state := STATE_CRASHED\<rparr>\<rparr>)
                  \<lparr>key = ''p'', defaultPrevented = False\<rparr>))"
proof -
  let ?p = "\<lparr>key = ''p'', defaultPrevented = False\<rparr>"
  let ?e = "\<lparr>key = ''Escape'', defaultPrevented = False\<rparr>"
  let ?c = "exampleGame\<lparr>skier := (skier exampleGame)\<lparr>state := STATE_CRASHED\<rparr>\<rparr>"
  have kp: "key ?p = KEYS_P exampleWorld \<or> key ?p = KEYS_ESC exampleWorld"
    by (simp add: exampleWorld_def)
  have ke: "key ?e = KEYS_P exampleWorld \<or> key ?e = KEYS_ESC exampleWorld"
    by (simp add: exampleWorld_def)
  have "paused (fst (handleKeyDown exampleWorld exampleGame ?p))"
    using pause_key_toggles [OF kp refl, of exampleGame]
    by (simp add: exampleWorld_def exampleGame_def spec_new_Skier_def)
  moreover have "\<not> paused (fst (handleKeyDown exampleWorld (exampleGame\<lparr>paused := True\<rparr>) ?e))"
    using pause_key_toggles [OF ke refl, of "exampleGame\<lparr>paused := True\<rparr>"]
    by simp
  moreover have "\<not> paused (fst (handleKeyDown exampleWorld ?c ?p))"
    using pause_key_toggles [OF kp refl, of ?c]
    by (simp add: exampleWorld_def)
  ultimately show ?thesis by blast
qed

subsection \<open>Ticks\<close>

text \<open>
  C3. While the game is paused, \<open>updateGameWindow\<close> returns the game as it was, every
  field of it; the frame still clears the canvas and draws, and what it draws holds the
  calls of the menu message \<open>Game paused! Your score is ...!\<close>.
\<close>

theorem paused_tick_draws_only:
  assumes "paused g"
  shows "updateGameWindow w g = g
         \<and> run w g = (g, ClearCanvas # drawGameWindow g)
         \<and> (\<exists>before after.
               drawGameWindow g = before @ drawMenuMessage g (pausedMessage g) 0.5 @ after)
         \<and> FillText (''Game paused! Your score is '' @ numberToString (score g) @ ''!'')
              (width (canvas g) / 2) (height (canvas g) / 2) \<in> set (snd (run w g))"
proof -
  have u: "updateGameWindow w g = g"
    using assms by (simp add: updateGameWindow_def)
  have r: "run w g = (g, ClearCanvas # drawGameWindow g)"
    by (simp add: run_def u)
  have m: "drawMenuMessages g = drawMenuMessage g (pausedMessage g) 0.5
             @ drop 6 (drawMenuMessages g)"
    using assms by (simp add: drawMenuMessages_def drawMenuMessage_def)
  have "drawGameWindow g
          = (take 4 (drawGameWindow g) @ drawScore g)
            @ drawMenuMessage g (pausedMessage g) 0.5 @ drop 6 (drawMenuMessages g)"
    using m by (simp add: drawGameWindow_def)
  then have d: "\<exists>before after.
      drawGameWindow g = before @ drawMenuMessage g (pausedMessage g) 0.5 @ after"
    by blast
  have "FillText (pausedMessage g) (width (canvas g) / 2) (height (canvas g) / 2)
          \<in> set (drawGameWindow g)"
    using assms by (simp add: drawGameWindow_def drawMenuMessages_def drawMenuMessage_def)
  then have f: "FillText (''Game paused! Your score is '' @ numberToString (score g) @ ''!'')
              (width (canvas g) / 2) (height (canvas g) / 2) \<in> set (snd (run w g))"
    by (simp add: r pausedMessage_def)
  from u r d f show ?thesis by blast
qed

text \<open>The concrete game, paused at score 0, in an 800 by 600 canvas.\<close>

theorem paused_tick_draws_only_witness:
  "paused (exampleGame\<lparr>paused := True\<rparr>)
   \<and> updateGameWindow exampleWorld (exampleGame\<lparr>paused := True\<rparr>)
       = exampleGame\<lparr>paused := True\<rparr>
   \<and> FillText ''Game paused! Your score is 0!'' 400 300
       \<in> set (snd (run exampleWorld (exampleGame\<lparr>paused := True\<rparr>)))"
proof -
  let ?g = "exampleGame\<lparr>paused := True\<rparr>"
  have p: "paused ?g" by simp
  have n: "numberToString 0 = ''0''"
    by (simp add: numberToString_def digits.simps [of 0])
  have m: "''Game paused! Your score is '' @ numberToString (score ?g) @ ''!''
             = ''Game paused! Your score is 0!''"
    by (simp add: n exampleGame_def)
  have c: "width (canvas ?g) / 2 = 400" "height (canvas ?g) / 2 = 300"
    by (simp_all add: exampleGame_def)
  from paused_tick_draws_only [OF p, of exampleWorld]
  have u: "updateGameWindow exampleWorld ?g = ?g"
    and f: "FillText (''Game paused! Your score is '' @ numberToString (score ?g) @ ''!'')
              (width (canvas ?g) / 2) (height (canvas ?g) / 2)
            \<in> set (snd (run exampleWorld ?g))"
    by blast+
  from f have "FillText ''Game paused! Your score is 0!'' 400 300
                 \<in> set (snd (run exampleWorld ?g))"
    by (simp only: m c)
  with p u show ?thesis by blast
qed

text \<open>
  C5. With the skier \<open>CRASHED\<close> or \<open>DEAD\<close>, \<open>updateGameScore\<close> changes nothing, and the
  score after the whole tick is the score before it.
\<close>

theorem crashed_or_dead_keeps_score:
  assumes "state (skier g) = STATE_CRASHED \<or> state (skier g) = STATE_DEAD"
  shows "updateGameScore g = g \<and> score (updateGameWindow w g) = score g"
  using assms by (auto simp: score_updateGameWindow updateGameScore_def)

text \<open>The concrete game with its skier crashed stays at score 0 over a tick.\<close>

theorem crashed_or_dead_keeps_score_witness:
  "state (skier (exampleGame\<lparr>skier := (skier exampleGame)\<lparr>state := STATE_CRASHED\<rparr>\<rparr>))
     = STATE_CRASHED
   \<and> score (updateGameWindow exampleWorld
        (exampleGame\<lparr>skier := (skier exampleGame)\<lparr>state := STATE_CRASHED\<rparr>\<rparr>)) = 0"
proof -
  let ?g = "exampleGame\<lparr>skier := (skier exampleGame)\<lparr>state := STATE_CRASHED\<rparr>\<rparr>"
  have c: "state (skier ?g) = STATE_CRASHED \<or> state (skier ?g) = STATE_DEAD" by simp
  from crashed_or_dead_keeps_score [OF c, of exampleWorld]
  show ?thesis by (simp add: exampleGame_def)
qed

text \<open>
  C10. The constructor sets the score to 0. \<open>updateGameScore\<close> adds 1 in \<open>SKIING\<close>, 10 in
  \<open>JUMPING\<close>, 100 in \<open>FLIPPING\<close> and 0 in the other states. An operation on the game
  changes the score by that amount when it gets to call \<open>updateGameScore\<close> and leaves
  it alone otherwise, so the score never decreases over any sequence of operations and
  is never negative in a game that started from the constructor.
\<close>

theorem score_only_grows_by_updateGameScore:
  "score (new_Game w g0) = 0
   \<and> score (updateGameScore g) = score g + scoreGain (state (skier g))
   \<and> score (exec op g)
       = (if reachesUpdateGameScore op g then score g + scoreGain (state (skier g)) else score g)
   \<and> score g \<le> score (play ops g)
   \<and> 0 \<le> score (play ops (new_Game w g0))"
proof -
  have "score (new_Game w g0) \<le> score (play ops (new_Game w g0))"
    by (rule score_play_mono)
  then have "0 \<le> score (play ops (new_Game w g0))"
    by (simp add: score_new_Game)
  then show ?thesis
    by (simp add: score_new_Game score_updateGameScore score_exec score_play_mono)
qed

subsection \<open>Drawing\<close>

text \<open>
  C6. \<open>drawGameWindow\<close> sets the draw offset and then issues the skier's draw, the
  rhino's draw, the obstacles' draw and the overlays (the score, then the menu
  messages), in this order; the score overlay is never empty.
\<close>

theorem drawGameWindow_order:
  "drawGameWindow g
     = SetDrawOffset (left_edge (gameWindow g)) (top_edge (gameWindow g))
       # SkierDraw (skier g) # RhinoDraw (rhino g) # DrawObstacles (obstacleManager g)
       # (drawScore g @ drawMenuMessages g)
   \<and> filter isEntityDraw (drawGameWindow g)
       = [SkierDraw (skier g), RhinoDraw (rhino g), DrawObstacles (obstacleManager g)]
   \<and> filter isOverlay (drawGameWindow g) = drawScore g @ drawMenuMessages g
   \<and> drawScore g \<noteq> []"
  by (simp add: drawGameWindow_def drawScore_def drawMenuMessages_def drawMenuMessage_def)

section \<open>One tick of a skiing skier\<close>

lemma translate_origin: "translate \<lparr>px = 0, py = 0\<rparr> v = v"
  by (simp add: translate_def)

text \<open>
  C4. Take \<open>Skier.update\<close> and \<open>Rhino.update\<close> as the specification describes them. In an
  unpaused tick that starts with the skier \<open>SKIING\<close> at \<open>(0,0)\<close>, heading \<open>DOWN\<close>, with
  no obstacle's bounds meeting the moved skier's, the score grows by exactly 1, the
  skier ends at the \<open>DOWN\<close> velocity vector away from \<open>(0,0)\<close>, and it is still skiing.
\<close>

theorem skiing_tick_advances:
  assumes "\<not> paused g"
    and "state (skier g) = STATE_SKIING"
    and "position (skier g) = \<lparr>px = 0, py = 0\<rparr>"
    and "direction (skier g) = DOWN"
    and "skierUpdate w = spec_Skier_update t"
    and "rhinoUpdate w = spec_Rhino_update t"
    and "\<not> list_ex
           (\<lambda>ob. intersects (skierBounds t (spec_Skier_move t (skier g))) (obstacleBounds t ob))
           (placeNewObstacle w (gameWindow (calculateGameWindow w g)) (gameWindow g)
              (obstacleManager g))"
  shows "score (updateGameWindow w g) = score g + 1
         \<and> position (skier (updateGameWindow w g)) = velocity t DOWN
         \<and> state (skier (updateGameWindow w g)) = STATE_SKIING"
proof -
  let ?moved = "spec_Skier_move t (skier g)"
  let ?obs = "placeNewObstacle w (gameWindow (calculateGameWindow w g)) (gameWindow g)
                (obstacleManager g)"
  have sc: "score (updateGameWindow w g) = score g + 1"
    using assms(1,2) by (simp add: score_updateGameWindow score_updateGameScore)
  have mv: "?moved = (skier g)\<lparr>position := velocity t DOWN\<rparr>"
    using assms(2,3,4) by (simp add: spec_Skier_move_def translate_origin)
  have jm: "spec_Skier_jump t ?moved = ?moved"
    using assms(2) by (simp add: spec_Skier_jump_def mv)
  have "\<not> list_ex (\<lambda>ob. crashable t (imageName ob)
            \<and> intersects (skierBounds t ?moved) (obstacleBounds t ob)) ?obs"
    using assms(7) by (auto simp: list_ex_iff)
  then have up: "spec_Skier_update t tm ?obs (skier g) = ?moved" for tm
    by (simp add: spec_Skier_update_def spec_Skier_collide_def jm)
  have st: "state ?moved = STATE_SKIING"
    using assms(2) by (simp add: mv)
  have rh: "snd (spec_Rhino_update t tm ?moved r) = ?moved" for tm r
    using st by (simp add: spec_Rhino_update_def Let_def)
  have gw: "gameWindow (calculateGameWindow w (updateGameScore (g\<lparr>gameTime := now w\<rparr>)))
             = gameWindow (calculateGameWindow w g)"
    by (simp add: calculateGameWindow_def Let_def skier_updateGameScore)
  have "skier (updateGameWindow w g) = ?moved"
    using assms(1)
    by (simp add: updateGameWindow_def Let_def split_beta assms(5,6) rh
        calculateGameWindow_def skier_updateGameScore obstacleManager_updateGameScore
        gameWindow_updateGameScore up [unfolded calculateGameWindow_def Let_def, simplified])
  then show ?thesis using sc st by (simp add: mv)
qed

text \<open>The concrete game: after one tick the score is 1 and the skier is at \<open>(0,10)\<close>.\<close>

theorem skiing_tick_advances_witness:
  "\<not> paused exampleGame \<and> state (skier exampleGame) = STATE_SKIING
   \<and> position (skier exampleGame) = \<lparr>px = 0, py = 0\<rparr>
   \<and> direction (skier exampleGame) = DOWN
   \<and> score (updateGameWindow exampleWorld exampleGame) = score exampleGame + 1
   \<and> position (skier (updateGameWindow exampleWorld exampleGame)) = \<lparr>px = 0, py = 10\<rparr>"
proof -
  have h: "\<not> paused exampleGame" "state (skier exampleGame) = STATE_SKIING"
    "position (skier exampleGame) = \<lparr>px = 0, py = 0\<rparr>" "direction (skier exampleGame) = DOWN"
    by (simp_all add: exampleGame_def spec_new_Skier_def)
  have u: "skierUpdate exampleWorld = spec_Skier_update exampleTuning"
    "rhinoUpdate exampleWorld = spec_Rhino_update exampleTuning"
    by (simp_all add: exampleWorld_def)
  have o: "\<not> list_ex
           (\<lambda>ob. intersects (skierBounds exampleTuning
                     (spec_Skier_move exampleTuning (skier exampleGame)))
                   (obstacleBounds exampleTuning ob))
           (placeNewObstacle exampleWorld
              (gameWindow (calculateGameWindow exampleWorld exampleGame))
              (gameWindow exampleGame) (obstacleManager exampleGame))"
    by (simp add: exampleWorld_def exampleGame_def)
  have v: "velocity exampleTuning DOWN = \<lparr>px = 0, py = 10\<rparr>"
    by (simp add: exampleTuning_def)
  from skiing_tick_advances [OF h u o] h v show ?thesis by simp
qed

end
